theory Spec2Isabelle
  imports Main "HOL-Library.Word"
begin

section \<open>The MyFox portable launcher (tools/portable\_launcher.c)\<close>

text \<open>
  The launcher is one C function, \<open>wWinMain\<close>, that talks to Windows through a
  handful of library calls. The embedding keeps that shape: every library call
  of the source is a function on an explicit operating-system state, each call
  appends one entry to the log \<open>calls\<close> of that state, and \<open>wWinMain\<close> threads
  the state through the calls in the order of the source.
\<close>

subsection \<open>Wide strings and constants of the platform headers\<close>

type_synonym WCHAR = "16 word"
type_synonym wstr = "WCHAR list"
type_synonym DWORD = "32 word"
type_synonym HRESULT = "32 word"
type_synonym HANDLE = nat

text \<open>
  A C wide string is the list of its characters before the terminating null.
  \<open>L\<close> is the C prefix \<open>L"..."\<close> on 7-bit literals. A string literal of the
  logic cannot hold a backslash, so the backslashes of the source's literals
  are written \<open>BACKSLASH\<close>.
\<close>

definition L :: "string \<Rightarrow> wstr" where
  "L s = map of_char s"

definition BACKSLASH :: WCHAR where
  "BACKSLASH = 0x5C"

definition COLON :: WCHAR where
  "COLON = 0x3A"

text \<open>
  The headers \<open>windows.h\<close>, \<open>shlwapi.h\<close> and \<open>strsafe.h\<close> are not part of the
  repository; the constants below carry the values of the Windows SDK.
\<close>

definition MAX_PATH :: nat where
  "MAX_PATH = 260"

definition INVALID_FILE_ATTRIBUTES :: DWORD where
  "INVALID_FILE_ATTRIBUTES = 0xFFFFFFFF"

definition FILE_ATTRIBUTE_DIRECTORY :: DWORD where
  "FILE_ATTRIBUTE_DIRECTORY = 0x10"

definition FILE_ATTRIBUTE_NORMAL :: DWORD where
  "FILE_ATTRIBUTE_NORMAL = 0x80"

definition MB_ICONERROR :: DWORD where
  "MB_ICONERROR = 0x10"

definition DETACHED_PROCESS :: DWORD where
  "DETACHED_PROCESS = 0x8"

definition S_OK :: HRESULT where
  "S_OK = 0"

definition STRSAFE_E_INSUFFICIENT_BUFFER :: HRESULT where
  "STRSAFE_E_INSUFFICIENT_BUFFER = 0x8007007A"

definition STRSAFE_E_INVALID_PARAMETER :: HRESULT where
  "STRSAFE_E_INVALID_PARAMETER = 0x80070057"

definition ERROR_FILE_NOT_FOUND :: DWORD where
  "ERROR_FILE_NOT_FOUND = 2"

definition ERROR_INSUFFICIENT_BUFFER :: DWORD where
  "ERROR_INSUFFICIENT_BUFFER = 122"

definition ERROR_ALREADY_EXISTS :: DWORD where
  "ERROR_ALREADY_EXISTS = 183"

subsection \<open>The operating-system state\<close>

datatype entry = RegularFile | Directory

text \<open>One log entry per library call: its arguments, then what it returned.\<close>

datatype call =
    GetModuleFileNameW_call nat nat
  | PathRemoveFileSpecW_call wstr bool
  | StringCchPrintfW_call nat wstr HRESULT
  | StringCchCopyW_call nat wstr HRESULT
  | GetFileAttributesW_call wstr DWORD
  | MessageBoxW_call wstr wstr DWORD
  | CreateDirectoryW_call wstr bool
  | CreateProcessW_call wstr wstr DWORD wstr bool
  | GetLastError_call DWORD
  | CloseHandle_call HANDLE

text \<open>
  \<open>module_file_name\<close> is the full path of the running executable as the system
  knows it (\<open>None\<close>: the query fails). \<open>files\<close> is the file system as the
  path-taking calls see it. \<open>mkdir_fault\<close> and \<open>spawn\<close> stand for everything
  else that decides whether a directory can be created (access rights, a
  missing parent) and whether a process starts; both may look at the file
  system. \<open>last_error\<close> is the thread's last-error code.
\<close>

record os =
  module_file_name :: "wstr option"
  files :: "wstr \<rightharpoonup> entry"
  mkdir_fault :: "(wstr \<rightharpoonup> entry) \<Rightarrow> wstr \<rightharpoonup> DWORD"
  spawn :: "(wstr \<rightharpoonup> entry) \<Rightarrow> wstr \<Rightarrow> wstr \<Rightarrow> DWORD \<Rightarrow> wstr \<Rightarrow> DWORD + HANDLE \<times> HANDLE"
  last_error :: DWORD
  calls :: "call list"

definition logged :: "call \<Rightarrow> os \<Rightarrow> os" where
  "logged c s = s\<lparr>calls := calls s @ [c]\<rparr>"

subsection \<open>The library calls\<close>

text \<open>
  \<open>GetModuleFileNameW(NULL, buf, nSize)\<close>: the length copied, without the
  null; a path that does not fit is cut to \<open>nSize - 1\<close> characters and the call
  returns \<open>nSize\<close>; a failed query returns 0.
\<close>

definition GetModuleFileNameW :: "nat \<Rightarrow> os \<Rightarrow> nat \<times> wstr \<times> os" where
  "GetModuleFileNameW nSize s =
     (case module_file_name s of
        None \<Rightarrow> (0, [], logged (GetModuleFileNameW_call nSize 0) s)
      | Some p \<Rightarrow>
          if length p < nSize
          then (length p, p, logged (GetModuleFileNameW_call nSize (length p)) s)
          else (nSize, take (nSize - 1) p,
                logged (GetModuleFileNameW_call nSize nSize)
                  (s\<lparr>last_error := ERROR_INSUFFICIENT_BUFFER\<rparr>)))"

text \<open>
  \<open>PathRemoveFileSpecW\<close> cuts a path before its file name. \<open>filespec_pos\<close> scans
  the path for the place of the cut: the last backslash, or the position after
  the last drive colon (and after the backslash that follows it, so that the
  root of a drive keeps its backslash). A leading backslash, single or double,
  is a root too and keeps its last backslash. The call tells whether it
  changed the path.
\<close>

fun filespec_pos :: "wstr \<Rightarrow> nat \<Rightarrow> nat \<Rightarrow> nat" where
  "filespec_pos [] i at = at"
| "filespec_pos [c] i at =
     (if c = BACKSLASH then i else if c = COLON then Suc i else at)"
| "filespec_pos (c # d # ds) i at =
     (if c = BACKSLASH then filespec_pos (d # ds) (Suc i) i
      else if c = COLON then
        (if d = BACKSLASH then filespec_pos ds (i + 2) (i + 2)
         else filespec_pos (d # ds) (Suc i) (Suc i))
      else filespec_pos (d # ds) (Suc i) at)"

definition remove_filespec :: "wstr \<Rightarrow> bool \<times> wstr" where
  "remove_filespec p =
     (let at = filespec_pos p 0 0 in
      if length p \<le> at then (False, p)
      else if p ! at = BACKSLASH \<and> (at = 0 \<or> (at = 1 \<and> p ! 0 = BACKSLASH))
      then (if at + 1 < length p then (True, take (at + 1) p) else (False, p))
      else (True, take at p))"

definition PathRemoveFileSpecW :: "wstr \<Rightarrow> os \<Rightarrow> wstr \<times> os" where
  "PathRemoveFileSpecW p s =
     (let (modified, p') = remove_filespec p
      in (p', logged (PathRemoveFileSpecW_call p modified) s))"

text \<open>
  The \<open>printf\<close> conversions the launcher uses: \<open>%s\<close> takes a wide string,
  \<open>%lu\<close> an unsigned long printed in decimal. Any other character of the
  format, and a conversion without a matching argument, is copied as it is.
\<close>

datatype fmt_arg = Str wstr | ULong DWORD

fun decimal :: "nat \<Rightarrow> wstr" where
  "decimal n =
     (if n < 10 then [0x30 + of_nat n]
      else decimal (n div 10) @ [0x30 + of_nat (n mod 10)])"

declare decimal.simps [simp del]

fun format :: "wstr \<Rightarrow> fmt_arg list \<Rightarrow> wstr" where
  "format [] args = []"
| "format [c] args = [c]"
| "format (c # d # ds) args =
     (if c = 0x25 \<and> d = 0x73 then
        (case args of
           Str a # rest \<Rightarrow> a @ format ds rest
         | _ \<Rightarrow> c # format (d # ds) args)
      else if c = 0x25 \<and> d = 0x6C \<and> ds \<noteq> [] \<and> hd ds = 0x75 then
        (case args of
           ULong n # rest \<Rightarrow> decimal (unat n) @ format (tl ds) rest
         | _ \<Rightarrow> c # format (d # ds) args)
      else c # format (d # ds) args)"

text \<open>
  \<open>StringCchPrintfW(dest, cchDest, fmt, ...)\<close> and \<open>StringCchCopyW(dest, cchDest,
  src)\<close>: the text is written when it fits with its null in \<open>cchDest\<close>
  characters; otherwise it is cut to \<open>cchDest - 1\<close> characters and the call
  returns \<open>STRSAFE_E_INSUFFICIENT_BUFFER\<close>. The log keeps the whole text.
\<close>

definition strsafe :: "nat \<Rightarrow> wstr \<Rightarrow> HRESULT \<times> wstr" where
  "strsafe cchDest text =
     (if cchDest = 0 then (STRSAFE_E_INVALID_PARAMETER, [])
      else if length text < cchDest then (S_OK, text)
      else (STRSAFE_E_INSUFFICIENT_BUFFER, take (cchDest - 1) text))"

definition StringCchPrintfW :: "nat \<Rightarrow> wstr \<Rightarrow> fmt_arg list \<Rightarrow> os \<Rightarrow> wstr \<times> os" where
  "StringCchPrintfW cchDest fmt args s =
     (let text = format fmt args; (hr, dest) = strsafe cchDest text
      in (dest, logged (StringCchPrintfW_call cchDest text hr) s))"

definition StringCchCopyW :: "nat \<Rightarrow> wstr \<Rightarrow> os \<Rightarrow> wstr \<times> os" where
  "StringCchCopyW cchDest src s =
     (let (hr, dest) = strsafe cchDest src
      in (dest, logged (StringCchCopyW_call cchDest src hr) s))"

text \<open>
  \<open>GetFileAttributesW\<close> answers \<open>INVALID_FILE_ATTRIBUTES\<close> exactly when there is
  no entry at the path; a directory has the directory bit.
\<close>

definition attributes :: "entry \<Rightarrow> DWORD" where
  "attributes e = (case e of RegularFile \<Rightarrow> FILE_ATTRIBUTE_NORMAL | Directory \<Rightarrow> FILE_ATTRIBUTE_DIRECTORY)"

definition GetFileAttributesW :: "wstr \<Rightarrow> os \<Rightarrow> DWORD \<times> os" where
  "GetFileAttributesW p s =
     (case files s p of
        None \<Rightarrow> (INVALID_FILE_ATTRIBUTES,
                 logged (GetFileAttributesW_call p INVALID_FILE_ATTRIBUTES)
                   (s\<lparr>last_error := ERROR_FILE_NOT_FOUND\<rparr>))
      | Some e \<Rightarrow> (attributes e, logged (GetFileAttributesW_call p (attributes e)) s))"

definition MessageBoxW :: "wstr \<Rightarrow> wstr \<Rightarrow> DWORD \<Rightarrow> os \<Rightarrow> os" where
  "MessageBoxW text caption uType s = logged (MessageBoxW_call text caption uType) s"

text \<open>
  \<open>CreateDirectoryW(p, NULL)\<close> fails with \<open>ERROR_ALREADY_EXISTS\<close> when there is
  an entry at \<open>p\<close>, fails with the code of the fault when the system refuses,
  and otherwise makes the directory.
\<close>

definition CreateDirectoryW :: "wstr \<Rightarrow> os \<Rightarrow> bool \<times> os" where
  "CreateDirectoryW p s =
     (case files s p of
        Some e \<Rightarrow> (False, logged (CreateDirectoryW_call p False)
                            (s\<lparr>last_error := ERROR_ALREADY_EXISTS\<rparr>))
      | None \<Rightarrow>
          (case mkdir_fault s (files s) p of
             Some err \<Rightarrow> (False, logged (CreateDirectoryW_call p False) (s\<lparr>last_error := err\<rparr>))
           | None \<Rightarrow> (True, logged (CreateDirectoryW_call p True)
                             (s\<lparr>files := (files s)(p \<mapsto> Directory)\<rparr>))))"

text \<open>
  \<open>CreateProcessW(app, cmdline, NULL, NULL, FALSE, flags, NULL, cwd, &si, &pi)\<close>:
  on success \<open>pi\<close> holds the handles of the process and of its first thread.
\<close>

definition CreateProcessW ::
  "wstr \<Rightarrow> wstr \<Rightarrow> DWORD \<Rightarrow> wstr \<Rightarrow> os \<Rightarrow> (HANDLE \<times> HANDLE) option \<times> os" where
  "CreateProcessW app cmdline flags cwd s =
     (case spawn s (files s) app cmdline flags cwd of
        Inl err \<Rightarrow> (None, logged (CreateProcessW_call app cmdline flags cwd False)
                            (s\<lparr>last_error := err\<rparr>))
      | Inr pi \<Rightarrow> (Some pi, logged (CreateProcessW_call app cmdline flags cwd True) s))"

definition GetLastError :: "os \<Rightarrow> DWORD \<times> os" where
  "GetLastError s = (last_error s, logged (GetLastError_call (last_error s)) s)"

definition CloseHandle :: "HANDLE \<Rightarrow> os \<Rightarrow> os" where
  "CloseHandle h s = logged (CloseHandle_call h) s"

subsection \<open>The launcher\<close>

text \<open>
  Lines 53 to 82 of the source: both branches of the search for
  \<open>firefox.exe\<close> that find it continue here, with \<open>base\<close> and \<open>ff_exe\<close> as they
  stand. The results of the two \<open>CreateDirectoryW\<close> calls are dropped, as in the
  source.
\<close>

definition launch :: "wstr \<Rightarrow> wstr \<Rightarrow> os \<Rightarrow> int \<times> os" where
  "launch base ff_exe s0 =
     (let (data_dir, s1) = StringCchPrintfW (MAX_PATH + 64)
                             (L ''%s'' @ BACKSLASH # L ''Data'') [Str base] s0;
          (profile, s2) = StringCchPrintfW (MAX_PATH + 64)
                            (L ''%s'' @ BACKSLASH # L ''Data'' @ BACKSLASH # L ''profile'')
                            [Str base] s1;
          (_, s3) = CreateDirectoryW data_dir s2;
          (_, s4) = CreateDirectoryW profile s3;
          (cmdline, s5) = StringCchPrintfW (MAX_PATH * 3)
                            (L ''\"%s\" -profile \"%s\" -no-remote'')
                            [Str ff_exe, Str profile] s4;
          (ff_dir, s6) = StringCchCopyW (MAX_PATH + 64) ff_exe s5;
          (ff_dir, s7) = PathRemoveFileSpecW ff_dir s6
      in case CreateProcessW ff_exe cmdline DETACHED_PROCESS ff_dir s7 of
           (None, s8) \<Rightarrow>
             let (err, s9) = GetLastError s8;
                 (err_msg, s10) = StringCchPrintfW 256
                     (L ''Failed to launch Firefox.\<newline>\<newline>Error code: %lu'') [ULong err] s9
             in (1, MessageBoxW err_msg (L ''MyFox - Error'') MB_ICONERROR s10)
         | (Some (hProcess, hThread), s8) \<Rightarrow>
             (0, CloseHandle hThread (CloseHandle hProcess s8)))"

definition wWinMain :: "os \<Rightarrow> int \<times> os" where
  "wWinMain s0 =
     (let (len, base, s1) = GetModuleFileNameW MAX_PATH s0 in
      if len = 0 \<or> len \<ge> MAX_PATH then
        (1, MessageBoxW (L ''Failed to get executable path.'') (L ''MyFox - Error'')
              MB_ICONERROR s1)
      else
        let (base, s2) = PathRemoveFileSpecW base s1;
            (ff_exe, s3) = StringCchPrintfW (MAX_PATH + 64)
                (L ''%s'' @ BACKSLASH # L ''App'' @ BACKSLASH # L ''Firefox64''
                   @ BACKSLASH # L ''firefox.exe'') [Str base] s2;
            (attr, s4) = GetFileAttributesW ff_exe s3
        in if attr = INVALID_FILE_ATTRIBUTES then
             let (ff_exe, s5) = StringCchPrintfW (MAX_PATH + 64)
                     (L ''%s'' @ BACKSLASH # L ''App'' @ BACKSLASH # L ''Firefox''
                        @ BACKSLASH # L ''firefox.exe'') [Str base] s4;
                 (attr, s6) = GetFileAttributesW ff_exe s5
             in if attr = INVALID_FILE_ATTRIBUTES then
                  (1, MessageBoxW
                        (L ''Firefox not found.\<newline>\<newline>Expected at:\<newline>  App''
                           @ BACKSLASH # L ''Firefox64'' @ BACKSLASH # L ''firefox.exe\<newline>  App''
                           @ BACKSLASH # L ''Firefox'' @ BACKSLASH # L ''firefox.exe'')
                        (L ''MyFox - Error'') MB_ICONERROR s6)
                else launch base ff_exe s6
           else launch base ff_exe s4)"

text \<open>What one run of the launcher adds to the log.\<close>

definition run_calls :: "os \<Rightarrow> call list" where
  "run_calls s = drop (length (calls s)) (calls (snd (wWinMain s)))"

subsection \<open>The paths and the command line of the specification\<close>

text \<open>
  The specification names the strings the launcher works with:
  \<open>InstallRoot\<close> (the directory of the running executable), the two candidate
  paths of the target in their order of priority, \<open>DataDirectory\<close>,
  \<open>ProfileDirectory\<close>, and the command line of the child. They are written
  here as the specification gives them; the theorems below compare them with
  what \<open>wWinMain\<close> computes.
\<close>

definition install_root :: "wstr \<Rightarrow> wstr" where
  "install_root p = snd (remove_filespec p)"

definition candidate64 :: "wstr \<Rightarrow> wstr" where
  "candidate64 root =
     root @ BACKSLASH # L ''App'' @ BACKSLASH # L ''Firefox64'' @ BACKSLASH # L ''firefox.exe''"

definition candidate32 :: "wstr \<Rightarrow> wstr" where
  "candidate32 root =
     root @ BACKSLASH # L ''App'' @ BACKSLASH # L ''Firefox'' @ BACKSLASH # L ''firefox.exe''"

definition data_directory :: "wstr \<Rightarrow> wstr" where
  "data_directory root = root @ BACKSLASH # L ''Data''"

definition profile_directory :: "wstr \<Rightarrow> wstr" where
  "profile_directory root = root @ BACKSLASH # L ''Data'' @ BACKSLASH # L ''profile''"

definition command_line :: "wstr \<Rightarrow> wstr \<Rightarrow> wstr" where
  "command_line target profile =
     L ''\"'' @ target @ L ''\" -profile \"'' @ profile @ L ''\" -no-remote''"

text \<open>
  What a \<open>CreateDirectoryW\<close> call answers and what it leaves in the file
  system, as functions of the file system alone.
\<close>

definition created :: "((wstr \<rightharpoonup> entry) \<Rightarrow> wstr \<rightharpoonup> DWORD) \<Rightarrow> (wstr \<rightharpoonup> entry) \<Rightarrow> wstr \<Rightarrow> bool" where
  "created fault fs p \<longleftrightarrow> fs p = None \<and> fault fs p = None"

definition with_dir :: "((wstr \<rightharpoonup> entry) \<Rightarrow> wstr \<rightharpoonup> DWORD) \<Rightarrow> (wstr \<rightharpoonup> entry) \<Rightarrow> wstr \<Rightarrow> (wstr \<rightharpoonup> entry)" where
  "with_dir fault fs p = (if created fault fs p then fs(p \<mapsto> Directory) else fs)"

text \<open>The text of the dialog shown when the child cannot be started.\<close>

definition error_text :: "DWORD \<Rightarrow> wstr" where
  "error_text err = L ''Failed to launch Firefox.\<newline>\<newline>Error code: '' @ decimal (unat err)"

text \<open>
  The file system after both directory creations; what the system answers to
  the \<open>CreateProcessW\<close> call the launcher makes from that file system; the log
  entries and the exit status of lines 53 to 82 for that answer.
\<close>

definition dirs_made :: "((wstr \<rightharpoonup> entry) \<Rightarrow> wstr \<rightharpoonup> DWORD) \<Rightarrow> (wstr \<rightharpoonup> entry) \<Rightarrow> wstr \<Rightarrow> (wstr \<rightharpoonup> entry)" where
  "dirs_made fault fs base =
     with_dir fault (with_dir fault fs (data_directory base)) (profile_directory base)"

definition spawn_outcome :: "os \<Rightarrow> wstr \<Rightarrow> wstr \<Rightarrow> DWORD + HANDLE \<times> HANDLE" where
  "spawn_outcome s base ff_exe =
     spawn s (dirs_made (mkdir_fault s) (files s) base) ff_exe
       (command_line ff_exe (profile_directory base)) DETACHED_PROCESS
       (snd (remove_filespec ff_exe))"

definition launch_log ::
  "((wstr \<rightharpoonup> entry) \<Rightarrow> wstr \<rightharpoonup> DWORD) \<Rightarrow> (wstr \<rightharpoonup> entry) \<Rightarrow> wstr \<Rightarrow> wstr
     \<Rightarrow> DWORD + HANDLE \<times> HANDLE \<Rightarrow> call list" where
  "launch_log fault fs base ff_exe outcome =
     [StringCchPrintfW_call (MAX_PATH + 64) (data_directory base) S_OK,
      StringCchPrintfW_call (MAX_PATH + 64) (profile_directory base) S_OK,
      CreateDirectoryW_call (data_directory base) (created fault fs (data_directory base)),
      CreateDirectoryW_call (profile_directory base)
        (created fault (with_dir fault fs (data_directory base)) (profile_directory base)),
      StringCchPrintfW_call (MAX_PATH * 3) (command_line ff_exe (profile_directory base)) S_OK,
      StringCchCopyW_call (MAX_PATH + 64) ff_exe S_OK,
      PathRemoveFileSpecW_call ff_exe (fst (remove_filespec ff_exe)),
      CreateProcessW_call ff_exe (command_line ff_exe (profile_directory base))
        DETACHED_PROCESS (snd (remove_filespec ff_exe)) (\<not> isl outcome)]
     @ (case outcome of
          Inl err \<Rightarrow>
            [GetLastError_call err,
             StringCchPrintfW_call 256 (error_text err) S_OK,
             MessageBoxW_call (error_text err) (L ''MyFox - Error'') MB_ICONERROR]
        | Inr (hProcess, hThread) \<Rightarrow>
            [CloseHandle_call hProcess, CloseHandle_call hThread])"

definition launch_status :: "DWORD + HANDLE \<times> HANDLE \<Rightarrow> int" where
  "launch_status outcome = (case outcome of Inl err \<Rightarrow> 1 | Inr pi \<Rightarrow> 0)"

text \<open>
  The log entries of lines 30 to 44: the search stops at the first candidate
  (\<open>search64_log\<close>) or goes on to the second (\<open>search32_log\<close>).
\<close>

definition search64_log :: "wstr \<Rightarrow> DWORD \<Rightarrow> call list" where
  "search64_log p attr =
     [GetModuleFileNameW_call MAX_PATH (length p),
      PathRemoveFileSpecW_call p (fst (remove_filespec p)),
      StringCchPrintfW_call (MAX_PATH + 64) (candidate64 (install_root p)) S_OK,
      GetFileAttributesW_call (candidate64 (install_root p)) attr]"

definition search32_log :: "wstr \<Rightarrow> DWORD \<Rightarrow> call list" where
  "search32_log p attr =
     search64_log p INVALID_FILE_ATTRIBUTES @
     [StringCchPrintfW_call (MAX_PATH + 64) (candidate32 (install_root p)) S_OK,
      GetFileAttributesW_call (candidate32 (install_root p)) attr]"

definition not_found_text :: wstr where
  "not_found_text =
     L ''Firefox not found.\<newline>\<newline>Expected at:\<newline>  App''
       @ BACKSLASH # L ''Firefox64'' @ BACKSLASH # L ''firefox.exe\<newline>  App''
       @ BACKSLASH # L ''Firefox'' @ BACKSLASH # L ''firefox.exe''"

text \<open>The log entries of the search, read off the file system.\<close>

definition search_log :: "(wstr \<rightharpoonup> entry) \<Rightarrow> wstr \<Rightarrow> call list" where
  "search_log fs p =
     (case fs (candidate64 (install_root p)) of
        Some e \<Rightarrow> search64_log p (attributes e)
      | None \<Rightarrow>
          search32_log p
            (case fs (candidate32 (install_root p)) of
               Some e \<Rightarrow> attributes e
             | None \<Rightarrow> INVALID_FILE_ATTRIBUTES))"

text \<open>
  The selection rule of the specification: the first candidate for which the
  existence check succeeds.
\<close>

definition resolved_target :: "(wstr \<rightharpoonup> entry) \<Rightarrow> wstr \<Rightarrow> wstr option" where
  "resolved_target fs root =
     (if fs (candidate64 root) \<noteq> None then Some (candidate64 root)
      else if fs (candidate32 root) \<noteq> None then Some (candidate32 root)
      else None)"

subsection \<open>Reading the log\<close>

text \<open>
  \<open>spawn_requests\<close> lists the executable, the command line and the working
  directory of every \<open>CreateProcessW\<close> call. \<open>is_effect\<close> holds of the calls that
  create a directory or a process. \<open>fits_buffer\<close> holds of a string-safe call
  when the text it was asked to write fits its buffer, and of every other
  call. \<open>spawn_succeeded\<close> holds of a \<open>CreateProcessW\<close> call that returned
  \<open>TRUE\<close>.
\<close>

fun spawn_request :: "call \<Rightarrow> (wstr \<times> wstr \<times> wstr) option" where
  "spawn_request (CreateProcessW_call app cmdline flags cwd ok) = Some (app, cmdline, cwd)"
| "spawn_request _ = None"

definition spawn_requests :: "call list \<Rightarrow> (wstr \<times> wstr \<times> wstr) list" where
  "spawn_requests cs = List.map_filter spawn_request cs"

fun is_effect :: "call \<Rightarrow> bool" where
  "is_effect (CreateDirectoryW_call p ok) = True"
| "is_effect (CreateProcessW_call app cmdline flags cwd ok) = True"
| "is_effect _ = False"

fun fits_buffer :: "call \<Rightarrow> bool" where
  "fits_buffer (StringCchPrintfW_call cchDest text hr) = (length text < cchDest \<and> hr = S_OK)"
| "fits_buffer (StringCchCopyW_call cchDest text hr) = (length text < cchDest \<and> hr = S_OK)"
| "fits_buffer _ = True"

fun spawn_succeeded :: "call \<Rightarrow> bool" where
  "spawn_succeeded (CreateProcessW_call app cmdline flags cwd ok) = ok"
| "spawn_succeeded _ = False"

subsection \<open>Example installations\<close>

text \<open>
  The launcher at \<open>C:\<close>, \<open>MyFox\<close>, \<open>MyFox.exe\<close>, with a given answer to the path
  query, a given list of file-system entries, a given directory-creation fault
  and a given answer to every process creation.
\<close>

definition example_path :: wstr where
  "example_path = L ''C:'' @ BACKSLASH # L ''MyFox'' @ BACKSLASH # L ''MyFox.exe''"

definition example_root :: wstr where
  "example_root = L ''C:'' @ BACKSLASH # L ''MyFox''"

definition example_os ::
  "wstr option \<Rightarrow> (wstr \<times> entry) list \<Rightarrow> (wstr \<rightharpoonup> DWORD) \<Rightarrow> (DWORD + HANDLE \<times> HANDLE) \<Rightarrow> os" where
  "example_os path entries fault outcome =
     \<lparr>module_file_name = path, files = map_of entries, mkdir_fault = (\<lambda>fs. fault),
      spawn = (\<lambda>fs app cmdline flags cwd. outcome), last_error = 0, calls = []\<rparr>"

section \<open>Properties of the library calls and of the launcher\<close>

lemma length_L [simp]: "length (L s) = length s"
  by (simp add: L_def)

lemma format_data:
  "format (L ''%s'' @ BACKSLASH # L ''Data'') [Str base] = base @ BACKSLASH # L ''Data''"
  by (simp add: L_def BACKSLASH_def)

lemma format_profile:
  "format (L ''%s'' @ BACKSLASH # L ''Data'' @ BACKSLASH # L ''profile'') [Str base]
     = base @ BACKSLASH # L ''Data'' @ BACKSLASH # L ''profile''"
  by (simp add: L_def BACKSLASH_def)

lemma format_ff64:
  "format (L ''%s'' @ BACKSLASH # L ''App'' @ BACKSLASH # L ''Firefox64''
                   @ BACKSLASH # L ''firefox.exe'') [Str base]
     = base @ BACKSLASH # L ''App'' @ BACKSLASH # L ''Firefox64'' @ BACKSLASH # L ''firefox.exe''"
  by (simp add: L_def BACKSLASH_def)

lemma format_ff32:
  "format (L ''%s'' @ BACKSLASH # L ''App'' @ BACKSLASH # L ''Firefox''
                   @ BACKSLASH # L ''firefox.exe'') [Str base]
     = base @ BACKSLASH # L ''App'' @ BACKSLASH # L ''Firefox'' @ BACKSLASH # L ''firefox.exe''"
  by (simp add: L_def BACKSLASH_def)

lemma format_cmdline:
  "format (L ''\"%s\" -profile \"%s\" -no-remote'') [Str ff_exe, Str profile]
     = L ''\"'' @ ff_exe @ L ''\" -profile \"'' @ profile @ L ''\" -no-remote''"
  by (simp add: L_def)

lemma format_err_msg:
  "format (L ''Failed to launch Firefox.\<newline>\<newline>Error code: %lu'') [ULong err]
     = L ''Failed to launch Firefox.\<newline>\<newline>Error code: '' @ decimal (unat err)"
  by (simp add: L_def)

lemma length_decimal: "n < 10 ^ k \<Longrightarrow> 0 < k \<Longrightarrow> length (decimal n) \<le> k"
proof (induction k arbitrary: n)
  case 0
  then show ?case by simp
next
  case (Suc k)
  show ?case
  proof (cases "n < 10")
    case True
    then show ?thesis by (simp add: decimal.simps)
  next
    case False
    with Suc.prems have "n div 10 < 10 ^ k" by (simp add: less_mult_imp_div_less mult.commute)
    moreover from False Suc.prems have "0 < k" by (cases k) auto
    ultimately have "length (decimal (n div 10)) \<le> k" by (rule Suc.IH)
    with False show ?thesis by (subst decimal.simps) simp
  qed
qed

lemma length_decimal_unat: "length (decimal (unat (e :: DWORD))) \<le> 10"
proof -
  have "unat e < 2 ^ 32" using unsigned_less [of e] by simp
  then have "unat e < 10 ^ 10" by simp
  then show ?thesis by (rule length_decimal) simp
qed

lemma filespec_pos_plain:
  "BACKSLASH \<notin> set name \<Longrightarrow> COLON \<notin> set name \<Longrightarrow> filespec_pos name i at = at"
  by (induction name i at rule: filespec_pos.induct) auto

lemma filespec_pos_sep:
  "BACKSLASH \<notin> set name \<Longrightarrow> COLON \<notin> set name \<Longrightarrow> filespec_pos (BACKSLASH # name) i at = i"
  by (cases name) (auto simp: filespec_pos_plain)

lemma filespec_pos_last_sep:
  assumes "c \<noteq> COLON" "BACKSLASH \<notin> set name" "COLON \<notin> set name"
  shows "filespec_pos (xs @ c # BACKSLASH # name) i at = Suc (i + length xs)"
proof (induction xs arbitrary: i at rule: induct_list012)
  case 1
  from assms show ?case by (simp add: filespec_pos_sep)
next
  case (2 x)
  from assms show ?case by (simp add: filespec_pos_sep)
next
  case (3 x y zs)
  have "filespec_pos (zs @ c # BACKSLASH # name) (i + 2) (i + 2) = Suc (i + 2 + length zs)"
    by (rule "3.IH"(1))
  moreover have "\<And>a. filespec_pos (y # zs @ c # BACKSLASH # name) (Suc i) a = Suc (Suc i + length (y # zs))"
    using "3.IH"(2) by simp
  ultimately show ?case by simp
qed

lemma remove_filespec_file:
  assumes "q \<noteq> []" "last q \<noteq> COLON" "2 \<le> length q" "name \<noteq> []"
    "BACKSLASH \<notin> set name" "COLON \<notin> set name"
  shows "remove_filespec (q @ BACKSLASH # name) = (True, q)"
proof -
  from assms(1) obtain xs c where q: "q = xs @ [c]" by (metis append_butlast_last_id)
  with assms(2) have c: "c \<noteq> COLON" by simp
  have pos: "filespec_pos (q @ BACKSLASH # name) 0 0 = length q"
    using filespec_pos_last_sep [OF c assms(5,6), of xs 0 0] by (simp add: q)
  have nth: "(q @ BACKSLASH # name) ! length q = BACKSLASH" by (simp add: nth_append)
  from assms(3) have "length q \<noteq> 0" "length q \<noteq> 1" by auto
  with pos nth show ?thesis by (simp add: remove_filespec_def Let_def)
qed

lemma length_remove_filespec: "length (snd (remove_filespec p)) \<le> length p"
  by (simp add: remove_filespec_def Let_def)

lemma calls_logged [simp]: "calls (logged c s) = calls s @ [c]"
  and files_logged [simp]: "files (logged c s) = files s"
  and module_file_name_logged [simp]: "module_file_name (logged c s) = module_file_name s"
  and mkdir_fault_logged [simp]: "mkdir_fault (logged c s) = mkdir_fault s"
  and spawn_logged [simp]: "spawn (logged c s) = spawn s"
  and last_error_logged [simp]: "last_error (logged c s) = last_error s"
  by (simp_all add: logged_def)

lemma strsafe_fits: "length text < n \<Longrightarrow> strsafe n text = (S_OK, text)"
  by (auto simp: strsafe_def)

lemma StringCchPrintfW_fits:
  "length (format fmt args) < n \<Longrightarrow>
   StringCchPrintfW n fmt args s
     = (format fmt args, logged (StringCchPrintfW_call n (format fmt args) S_OK) s)"
  by (simp add: StringCchPrintfW_def strsafe_fits Let_def)

lemma StringCchCopyW_fits:
  "length src < n \<Longrightarrow>
   StringCchCopyW n src s = (src, logged (StringCchCopyW_call n src S_OK) s)"
  by (simp add: StringCchCopyW_def strsafe_fits)

lemma PathRemoveFileSpecW_eq:
  "PathRemoveFileSpecW p s
     = (snd (remove_filespec p), logged (PathRemoveFileSpecW_call p (fst (remove_filespec p))) s)"
  by (simp add: PathRemoveFileSpecW_def split_def Let_def)

lemma CreateDirectoryW_calls:
  "calls (snd (CreateDirectoryW p s)) = calls s @ [CreateDirectoryW_call p (fst (CreateDirectoryW p s))]"
  by (simp add: CreateDirectoryW_def split: option.splits)

lemma CreateDirectoryW_env:
  "module_file_name (snd (CreateDirectoryW p s)) = module_file_name s"
  "mkdir_fault (snd (CreateDirectoryW p s)) = mkdir_fault s"
  "spawn (snd (CreateDirectoryW p s)) = spawn s"
  by (simp_all add: CreateDirectoryW_def split: option.splits)

lemma StringCchPrintfW_err_msg:
  "StringCchPrintfW 256
       (L ''Failed to launch Firefox.\<newline>\<newline>Error code: %lu'') [ULong e] s
     = (L ''Failed to launch Firefox.\<newline>\<newline>Error code: '' @ decimal (unat e),
        logged (StringCchPrintfW_call 256
          (L ''Failed to launch Firefox.\<newline>\<newline>Error code: '' @ decimal (unat e)) S_OK) s)"
proof -
  have "length (format (L ''Failed to launch Firefox.\<newline>\<newline>Error code: %lu'') [ULong e]) < 256"
    using length_decimal_unat [of e] by (simp add: format_err_msg)
  then show ?thesis
    by (simp add: StringCchPrintfW_fits format_err_msg)
qed

lemma CreateDirectoryW_fst: "fst (CreateDirectoryW p s) = created (mkdir_fault s) (files s) p"
  by (simp add: CreateDirectoryW_def created_def split: option.splits)

lemma CreateDirectoryW_files:
  "files (snd (CreateDirectoryW p s)) = with_dir (mkdir_fault s) (files s) p"
  by (simp add: CreateDirectoryW_def with_dir_def created_def split: option.splits)

lemma length_error_text: "length (error_text err) < 256"
  using length_decimal_unat [of err] by (simp add: error_text_def)

lemma format_simps:
  "format (L ''%s'' @ BACKSLASH # L ''Data'') [Str base] = data_directory base"
  "format (L ''%s'' @ BACKSLASH # L ''Data'' @ BACKSLASH # L ''profile'') [Str base]
     = profile_directory base"
  "format (L ''%s'' @ BACKSLASH # L ''App'' @ BACKSLASH # L ''Firefox64''
                   @ BACKSLASH # L ''firefox.exe'') [Str base] = candidate64 base"
  "format (L ''%s'' @ BACKSLASH # L ''App'' @ BACKSLASH # L ''Firefox''
                   @ BACKSLASH # L ''firefox.exe'') [Str base] = candidate32 base"
  "format (L ''\"%s\" -profile \"%s\" -no-remote'') [Str ff_exe, Str profile]
     = command_line ff_exe profile"
  "format (L ''Failed to launch Firefox.\<newline>\<newline>Error code: %lu'') [ULong err] = error_text err"
  by (simp_all only: format_data format_profile format_ff64 format_ff32 format_cmdline
      format_err_msg data_directory_def profile_directory_def candidate64_def candidate32_def
      command_line_def error_text_def)

lemma path_lengths:
  "length (candidate64 root) = length root + 26"
  "length (candidate32 root) = length root + 24"
  "length (data_directory root) = length root + 5"
  "length (profile_directory root) = length root + 13"
  "length (command_line target profile) = length target + length profile + 25"
  by (simp_all add: candidate64_def candidate32_def data_directory_def profile_directory_def
      command_line_def)

lemma launch_eq:
  assumes "length base < MAX_PATH" "length ff_exe \<le> length base + 26"
  shows "fst (launch base ff_exe s) = launch_status (spawn_outcome s base ff_exe)
    \<and> calls (snd (launch base ff_exe s)) = calls s @
           launch_log (mkdir_fault s) (files s) base ff_exe (spawn_outcome s base ff_exe)
    \<and> files (snd (launch base ff_exe s)) = dirs_made (mkdir_fault s) (files s) base
    \<and> module_file_name (snd (launch base ff_exe s)) = module_file_name s
    \<and> mkdir_fault (snd (launch base ff_exe s)) = mkdir_fault s
    \<and> spawn (snd (launch base ff_exe s)) = spawn s"
proof -
  from assms(1,2) have fits:
    "length (data_directory base) < MAX_PATH + 64"
    "length (profile_directory base) < MAX_PATH + 64"
    "length (command_line ff_exe (profile_directory base)) < MAX_PATH * 3"
    "length ff_exe < MAX_PATH + 64"
    by (simp_all add: MAX_PATH_def path_lengths)
  note rules = Let_def split_def StringCchPrintfW_fits StringCchCopyW_fits fits
        format_simps length_error_text PathRemoveFileSpecW_eq
        CreateDirectoryW_calls CreateDirectoryW_env CreateDirectoryW_fst CreateDirectoryW_files
        CreateProcessW_def GetLastError_def MessageBoxW_def CloseHandle_def
        launch_log_def launch_status_def dirs_made_def
  show ?thesis
  proof (cases "spawn_outcome s base ff_exe")
    case (Inl err)
    then have "spawn s (with_dir (mkdir_fault s) (with_dir (mkdir_fault s) (files s)
                 (data_directory base)) (profile_directory base))
           ff_exe (command_line ff_exe (profile_directory base)) DETACHED_PROCESS
           (snd (remove_filespec ff_exe)) = Inl err"
      by (simp add: spawn_outcome_def dirs_made_def)
    with Inl show ?thesis
      unfolding launch_def by (simp add: rules)
  next
    case (Inr pi)
    then have "spawn s (with_dir (mkdir_fault s) (with_dir (mkdir_fault s) (files s)
                 (data_directory base)) (profile_directory base))
           ff_exe (command_line ff_exe (profile_directory base)) DETACHED_PROCESS
           (snd (remove_filespec ff_exe)) = Inr (fst pi, snd pi)"
      by (simp add: spawn_outcome_def dirs_made_def)
    with Inr show ?thesis
      unfolding launch_def by (simp add: rules)
  qed
qed

lemma GetModuleFileNameW_ok:
  "module_file_name s = Some p \<Longrightarrow> length p < n \<Longrightarrow>
   GetModuleFileNameW n s = (length p, p, logged (GetModuleFileNameW_call n (length p)) s)"
  by (simp add: GetModuleFileNameW_def)

lemma length_install_root: "length (install_root p) \<le> length p"
  by (simp add: install_root_def length_remove_filespec)

lemma attributes_valid: "attributes e \<noteq> INVALID_FILE_ATTRIBUTES"
  by (cases e) (simp_all add: attributes_def INVALID_FILE_ATTRIBUTES_def
      FILE_ATTRIBUTE_NORMAL_def FILE_ATTRIBUTE_DIRECTORY_def)

lemma GetFileAttributesW_found:
  "files s p = Some e \<Longrightarrow>
   GetFileAttributesW p s = (attributes e, logged (GetFileAttributesW_call p (attributes e)) s)"
  by (simp add: GetFileAttributesW_def)

lemma GetFileAttributesW_missing:
  "files s p = None \<Longrightarrow>
   GetFileAttributesW p s =
     (INVALID_FILE_ATTRIBUTES,
      logged (GetFileAttributesW_call p INVALID_FILE_ATTRIBUTES)
        (s\<lparr>last_error := ERROR_FILE_NOT_FOUND\<rparr>))"
  by (simp add: GetFileAttributesW_def)

lemma wWinMain_found64:
  assumes "module_file_name s = Some p" "p \<noteq> []" "length p < MAX_PATH"
    and "files s (candidate64 (install_root p)) = Some e"
  shows "fst (wWinMain s)
           = launch_status (spawn_outcome s (install_root p) (candidate64 (install_root p)))
    \<and> run_calls s = search64_log p (attributes e) @
         launch_log (mkdir_fault s) (files s) (install_root p) (candidate64 (install_root p))
           (spawn_outcome s (install_root p) (candidate64 (install_root p)))
    \<and> files (snd (wWinMain s)) = dirs_made (mkdir_fault s) (files s) (install_root p)
    \<and> module_file_name (snd (wWinMain s)) = module_file_name s
    \<and> mkdir_fault (snd (wWinMain s)) = mkdir_fault s
    \<and> spawn (snd (wWinMain s)) = spawn s"
proof -
  let ?root = "install_root p"
  let ?s4 = "logged (GetFileAttributesW_call (candidate64 ?root) (attributes e))
              (logged (StringCchPrintfW_call (MAX_PATH + 64) (candidate64 ?root) S_OK)
                (logged (PathRemoveFileSpecW_call p (fst (remove_filespec p)))
                  (logged (GetModuleFileNameW_call MAX_PATH (length p)) s)))"
  from assms(3) have root: "length ?root < MAX_PATH"
    using length_install_root [of p] by simp
  then have fits: "length (candidate64 ?root) < MAX_PATH + 64"
    by (simp add: path_lengths)
  have run: "wWinMain s = launch ?root (candidate64 ?root) ?s4"
    unfolding wWinMain_def using assms
    by (simp add: GetModuleFileNameW_ok Let_def PathRemoveFileSpecW_eq
        install_root_def [symmetric] StringCchPrintfW_fits format_simps fits
        GetFileAttributesW_found attributes_valid)
  show ?thesis
    using launch_eq [OF root, of "candidate64 ?root" ?s4]
    by (simp add: run run_calls_def path_lengths spawn_outcome_def search64_log_def)
qed

lemma wWinMain_found32:
  assumes "module_file_name s = Some p" "p \<noteq> []" "length p < MAX_PATH"
    and "files s (candidate64 (install_root p)) = None"
    and "files s (candidate32 (install_root p)) = Some e"
  shows "fst (wWinMain s)
           = launch_status (spawn_outcome s (install_root p) (candidate32 (install_root p)))
    \<and> run_calls s = search32_log p (attributes e) @
         launch_log (mkdir_fault s) (files s) (install_root p) (candidate32 (install_root p))
           (spawn_outcome s (install_root p) (candidate32 (install_root p)))
    \<and> files (snd (wWinMain s)) = dirs_made (mkdir_fault s) (files s) (install_root p)
    \<and> module_file_name (snd (wWinMain s)) = module_file_name s
    \<and> mkdir_fault (snd (wWinMain s)) = mkdir_fault s
    \<and> spawn (snd (wWinMain s)) = spawn s"
proof -
  let ?root = "install_root p"
  let ?s6 = "logged (GetFileAttributesW_call (candidate32 ?root) (attributes e))
              (logged (StringCchPrintfW_call (MAX_PATH + 64) (candidate32 ?root) S_OK)
                (logged (GetFileAttributesW_call (candidate64 ?root) INVALID_FILE_ATTRIBUTES)
                  ((logged (StringCchPrintfW_call (MAX_PATH + 64) (candidate64 ?root) S_OK)
                    (logged (PathRemoveFileSpecW_call p (fst (remove_filespec p)))
                      (logged (GetModuleFileNameW_call MAX_PATH (length p)) s)))
                   \<lparr>last_error := ERROR_FILE_NOT_FOUND\<rparr>)))"
  from assms(3) have root: "length ?root < MAX_PATH"
    using length_install_root [of p] by simp
  then have fits: "length (candidate64 ?root) < MAX_PATH + 64"
    "length (candidate32 ?root) < MAX_PATH + 64"
    by (simp_all add: path_lengths)
  have run: "wWinMain s = launch ?root (candidate32 ?root) ?s6"
    unfolding wWinMain_def using assms
    by (simp add: GetModuleFileNameW_ok Let_def PathRemoveFileSpecW_eq
        install_root_def [symmetric] StringCchPrintfW_fits format_simps fits
        GetFileAttributesW_found GetFileAttributesW_missing attributes_valid)
  show ?thesis
    using launch_eq [OF root, of "candidate32 ?root" ?s6]
    by (simp add: run run_calls_def path_lengths spawn_outcome_def search32_log_def
        search64_log_def)
qed

lemma wWinMain_not_found:
  assumes "module_file_name s = Some p" "p \<noteq> []" "length p < MAX_PATH"
    and "files s (candidate64 (install_root p)) = None"
    and "files s (candidate32 (install_root p)) = None"
  shows "fst (wWinMain s) = 1
    \<and> run_calls s = search32_log p INVALID_FILE_ATTRIBUTES @
         [MessageBoxW_call not_found_text (L ''MyFox - Error'') MB_ICONERROR]
    \<and> files (snd (wWinMain s)) = files s
    \<and> module_file_name (snd (wWinMain s)) = module_file_name s
    \<and> mkdir_fault (snd (wWinMain s)) = mkdir_fault s
    \<and> spawn (snd (wWinMain s)) = spawn s"
proof -
  let ?root = "install_root p"
  from assms(3) have root: "length ?root < MAX_PATH"
    using length_install_root [of p] by simp
  then have fits: "length (candidate64 ?root) < MAX_PATH + 64"
    "length (candidate32 ?root) < MAX_PATH + 64"
    by (simp_all add: path_lengths)
  show ?thesis
    unfolding wWinMain_def run_calls_def using assms
    by (simp add: GetModuleFileNameW_ok Let_def PathRemoveFileSpecW_eq
        install_root_def [symmetric] StringCchPrintfW_fits format_simps fits
        GetFileAttributesW_missing MessageBoxW_def search32_log_def search64_log_def
        not_found_text_def)
qed

lemma wWinMain_no_path:
  assumes "module_file_name s = None \<or>
           (\<exists>p. module_file_name s = Some p \<and> (p = [] \<or> MAX_PATH \<le> length p))"
  shows "fst (wWinMain s) = 1
    \<and> (\<exists>n. run_calls s =
         [GetModuleFileNameW_call MAX_PATH n,
          MessageBoxW_call (L ''Failed to get executable path.'') (L ''MyFox - Error'')
            MB_ICONERROR])
    \<and> files (snd (wWinMain s)) = files s
    \<and> module_file_name (snd (wWinMain s)) = module_file_name s
    \<and> mkdir_fault (snd (wWinMain s)) = mkdir_fault s
    \<and> spawn (snd (wWinMain s)) = spawn s"
  using assms unfolding wWinMain_def run_calls_def
  by (auto simp: GetModuleFileNameW_def MessageBoxW_def MAX_PATH_def)

lemma spawn_requests_simps [simp]:
  "spawn_requests [] = []"
  "spawn_requests (c # cs) =
     (case spawn_request c of None \<Rightarrow> spawn_requests cs | Some r \<Rightarrow> r # spawn_requests cs)"
  "spawn_requests (xs @ ys) = spawn_requests xs @ spawn_requests ys"
  by (simp_all add: spawn_requests_def map_filter_def split: option.splits)

lemma wWinMain_found:
  assumes "module_file_name s = Some p" "p \<noteq> []" "length p < MAX_PATH"
    and "resolved_target (files s) (install_root p) = Some target"
  shows "fst (wWinMain s) = launch_status (spawn_outcome s (install_root p) target)
    \<and> run_calls s = search_log (files s) p @
         launch_log (mkdir_fault s) (files s) (install_root p) target
           (spawn_outcome s (install_root p) target)
    \<and> files (snd (wWinMain s)) = dirs_made (mkdir_fault s) (files s) (install_root p)
    \<and> module_file_name (snd (wWinMain s)) = module_file_name s
    \<and> mkdir_fault (snd (wWinMain s)) = mkdir_fault s
    \<and> spawn (snd (wWinMain s)) = spawn s"
proof (cases "files s (candidate64 (install_root p))")
  case None
  with assms(4) obtain e where e: "files s (candidate32 (install_root p)) = Some e"
    and "target = candidate32 (install_root p)"
    by (auto simp: resolved_target_def split: if_splits)
  with None wWinMain_found32 [OF assms(1-3) None e] show ?thesis
    by (simp add: search_log_def)
next
  case (Some e)
  with assms(4) have "target = candidate64 (install_root p)"
    by (simp add: resolved_target_def)
  with Some wWinMain_found64 [OF assms(1-3) Some] show ?thesis
    by (simp add: search_log_def)
qed

lemma wWinMain_missing:
  assumes "module_file_name s = Some p" "p \<noteq> []" "length p < MAX_PATH"
    and "resolved_target (files s) (install_root p) = None"
  shows "fst (wWinMain s) = 1
    \<and> run_calls s = search_log (files s) p @
         [MessageBoxW_call not_found_text (L ''MyFox - Error'') MB_ICONERROR]
    \<and> files (snd (wWinMain s)) = files s"
proof -
  from assms(4) have none: "files s (candidate64 (install_root p)) = None"
    "files s (candidate32 (install_root p)) = None"
    by (simp_all add: resolved_target_def split: if_splits)
  with wWinMain_not_found [OF assms(1-3) none] show ?thesis
    by (simp add: search_log_def)
qed

lemma candidates_differ: "candidate32 root \<noteq> candidate64 root"
proof
  assume "candidate32 root = candidate64 root"
  then have "length (candidate32 root) = length (candidate64 root)" by simp
  then show False by (simp add: path_lengths)
qed

lemma search_log_quiet:
  "spawn_requests (search_log fs p) = []"
  "filter is_effect (search_log fs p) = []"
  by (simp_all add: search_log_def search64_log_def search32_log_def split: option.splits)

lemma search_log_fits:
  assumes "length p < MAX_PATH"
  shows "\<forall>c \<in> set (search_log fs p). fits_buffer c"
proof -
  from assms have "length (install_root p) < MAX_PATH"
    using length_install_root [of p] by simp
  then show ?thesis
    by (simp add: search_log_def search64_log_def search32_log_def path_lengths
        split: option.splits)
qed

lemma launch_log_requests:
  "spawn_requests (launch_log fault fs base ff_exe outcome) =
     [(ff_exe, command_line ff_exe (profile_directory base), snd (remove_filespec ff_exe))]"
  by (simp add: launch_log_def split: sum.splits)

lemma launch_log_effects:
  "filter is_effect (launch_log fault fs base ff_exe outcome) =
     [CreateDirectoryW_call (data_directory base) (created fault fs (data_directory base)),
      CreateDirectoryW_call (profile_directory base)
        (created fault (with_dir fault fs (data_directory base)) (profile_directory base)),
      CreateProcessW_call ff_exe (command_line ff_exe (profile_directory base))
        DETACHED_PROCESS (snd (remove_filespec ff_exe)) (\<not> isl outcome)]"
  by (simp add: launch_log_def split: sum.splits)

lemma launch_log_fits:
  assumes "length base < MAX_PATH" "length ff_exe \<le> length base + 26"
  shows "\<forall>c \<in> set (launch_log fault fs base ff_exe outcome). fits_buffer c"
  using assms length_error_text
  by (simp add: launch_log_def path_lengths MAX_PATH_def split: sum.splits)

lemma resolved_target_cases:
  assumes "resolved_target fs root = Some target"
  shows "target = candidate64 root \<or> target = candidate32 root"
  using assms by (auto simp: resolved_target_def split: if_splits)

lemma directory_of_candidate:
  "remove_filespec (candidate64 root)
     = (True, root @ BACKSLASH # L ''App'' @ BACKSLASH # L ''Firefox64'')"
  "remove_filespec (candidate32 root)
     = (True, root @ BACKSLASH # L ''App'' @ BACKSLASH # L ''Firefox'')"
proof -
  have name: "L ''firefox.exe'' \<noteq> []" "BACKSLASH \<notin> set (L ''firefox.exe'')"
    "COLON \<notin> set (L ''firefox.exe'')"
    by (simp_all add: L_def BACKSLASH_def COLON_def)
  have "remove_filespec ((root @ BACKSLASH # L ''App'' @ BACKSLASH # L ''Firefox64'')
          @ BACKSLASH # L ''firefox.exe'')
        = (True, root @ BACKSLASH # L ''App'' @ BACKSLASH # L ''Firefox64'')"
    by (rule remove_filespec_file [OF _ _ _ name]) (simp_all add: L_def COLON_def)
  then show "remove_filespec (candidate64 root)
     = (True, root @ BACKSLASH # L ''App'' @ BACKSLASH # L ''Firefox64'')"
    by (simp add: candidate64_def)
  have "remove_filespec ((root @ BACKSLASH # L ''App'' @ BACKSLASH # L ''Firefox'')
          @ BACKSLASH # L ''firefox.exe'')
        = (True, root @ BACKSLASH # L ''App'' @ BACKSLASH # L ''Firefox'')"
    by (rule remove_filespec_file [OF _ _ _ name]) (simp_all add: L_def COLON_def)
  then show "remove_filespec (candidate32 root)
     = (True, root @ BACKSLASH # L ''App'' @ BACKSLASH # L ''Firefox'')"
    by (simp add: candidate32_def)
qed

lemma search_log_no_spawn: "\<not> (\<exists>c \<in> set (search_log fs p). spawn_succeeded c)"
  by (simp add: search_log_def search64_log_def search32_log_def split: option.splits)

lemma launch_log_spawn:
  "(\<exists>c \<in> set (launch_log fault fs base ff_exe outcome). spawn_succeeded c) \<longleftrightarrow> \<not> isl outcome"
  by (simp add: launch_log_def split: sum.splits)

lemma search_log_no_second_check:
  "fs (candidate64 (install_root p)) = Some e \<Longrightarrow>
   GetFileAttributesW_call (candidate32 (install_root p)) attr \<notin> set (search_log fs p)"
  by (simp add: search_log_def search64_log_def candidates_differ)

lemma launch_log_no_check:
  "GetFileAttributesW_call q attr \<notin> set (launch_log fault fs base ff_exe outcome)"
  by (simp add: launch_log_def split: sum.splits)

lemma example_install_root: "install_root example_path = example_root"
  by code_simp

section \<open>The claims\<close>

text \<open>
  C1. For every install layout in which \<open>App/Firefox64/firefox.exe\<close> exists,
  the launcher starts \<open>InstallRoot/App/Firefox64/firefox.exe\<close>, also when
  \<open>App/Firefox/firefox.exe\<close> exists as well, and it does not check the second
  candidate.
\<close>

theorem firefox64_has_priority:
  assumes "module_file_name s = Some p" "p \<noteq> []" "length p < MAX_PATH"
    and "files s (candidate64 (install_root p)) \<noteq> None"
  shows "map fst (spawn_requests (run_calls s)) = [candidate64 (install_root p)]
    \<and> (\<forall>attr. GetFileAttributesW_call (candidate32 (install_root p)) attr \<notin> set (run_calls s))"
proof -
  from assms(4) obtain e where e: "files s (candidate64 (install_root p)) = Some e" by auto
  then have "resolved_target (files s) (install_root p) = Some (candidate64 (install_root p))"
    by (simp add: resolved_target_def)
  from wWinMain_found [OF assms(1-3) this] e show ?thesis
    by (simp add: search_log_quiet launch_log_requests search_log_no_second_check
        launch_log_no_check)
qed

theorem firefox64_has_priority_witness:
  "module_file_name (example_os (Some example_path)
       [(candidate64 example_root, RegularFile), (candidate32 example_root, RegularFile)]
       Map.empty (Inr (4, 8))) = Some example_path
   \<and> example_path \<noteq> [] \<and> length example_path < MAX_PATH
   \<and> files (example_os (Some example_path)
       [(candidate64 example_root, RegularFile), (candidate32 example_root, RegularFile)]
       Map.empty (Inr (4, 8))) (candidate64 (install_root example_path)) \<noteq> None
   \<and> files (example_os (Some example_path)
       [(candidate64 example_root, RegularFile), (candidate32 example_root, RegularFile)]
       Map.empty (Inr (4, 8))) (candidate32 (install_root example_path)) \<noteq> None
   \<and> map fst (spawn_requests (run_calls (example_os (Some example_path)
       [(candidate64 example_root, RegularFile), (candidate32 example_root, RegularFile)]
       Map.empty (Inr (4, 8))))) = [candidate64 example_root]"
proof -
  let ?s = "example_os (Some example_path)
       [(candidate64 example_root, RegularFile), (candidate32 example_root, RegularFile)]
       Map.empty (Inr (4, 8))"
  have h1: "module_file_name ?s = Some example_path" by (simp add: example_os_def)
  have h2: "example_path \<noteq> []" by (simp add: example_path_def)
  have h3: "length example_path < MAX_PATH" by (simp add: example_path_def MAX_PATH_def)
  have h4: "files ?s (candidate64 (install_root example_path)) \<noteq> None"
    by (simp add: example_os_def example_install_root)
  have h5: "files ?s (candidate32 (install_root example_path)) \<noteq> None"
    by (simp add: example_os_def example_install_root)
  from firefox64_has_priority [OF h1 h2 h3 h4] h1 h2 h3 h4 h5 show ?thesis
    by (simp add: example_install_root)
qed

text \<open>
  C2. For every install layout in which neither \<open>App/Firefox64/firefox.exe\<close>
  nor \<open>App/Firefox/firefox.exe\<close> exists, the launcher exits with status 1; its
  run holds no call that creates a directory or a process, and the file system
  is as before.
\<close>

theorem no_candidate_no_effect:
  assumes "module_file_name s = Some p" "p \<noteq> []" "length p < MAX_PATH"
    and "files s (candidate64 (install_root p)) = None"
    and "files s (candidate32 (install_root p)) = None"
  shows "fst (wWinMain s) = 1
    \<and> filter is_effect (run_calls s) = []
    \<and> spawn_requests (run_calls s) = []
    \<and> files (snd (wWinMain s)) = files s"
proof -
  from assms(4,5) have "resolved_target (files s) (install_root p) = None"
    by (simp add: resolved_target_def)
  from wWinMain_missing [OF assms(1-3) this] show ?thesis
    by (simp add: search_log_quiet)
qed

theorem no_candidate_no_effect_witness:
  "module_file_name (example_os (Some example_path) [] Map.empty (Inr (4, 8))) = Some example_path
   \<and> example_path \<noteq> [] \<and> length example_path < MAX_PATH
   \<and> files (example_os (Some example_path) [] Map.empty (Inr (4, 8)))
        (candidate64 (install_root example_path)) = None
   \<and> files (example_os (Some example_path) [] Map.empty (Inr (4, 8)))
        (candidate32 (install_root example_path)) = None
   \<and> fst (wWinMain (example_os (Some example_path) [] Map.empty (Inr (4, 8)))) = 1
   \<and> filter is_effect (run_calls (example_os (Some example_path) [] Map.empty (Inr (4, 8)))) = []"
proof -
  let ?s = "example_os (Some example_path) [] Map.empty (Inr (4, 8))"
  have h1: "module_file_name ?s = Some example_path" by (simp add: example_os_def)
  have h2: "example_path \<noteq> []" by (simp add: example_path_def)
  have h3: "length example_path < MAX_PATH" by (simp add: example_path_def MAX_PATH_def)
  have h4: "files ?s (candidate64 (install_root example_path)) = None"
    by (simp add: example_os_def)
  have h5: "files ?s (candidate32 (install_root example_path)) = None"
    by (simp add: example_os_def)
  from no_candidate_no_effect [OF h1 h2 h3 h4 h5] h1 h2 h3 h4 h5 show ?thesis
    by simp
qed

text \<open>
  C3. For every install root and every resolved target, the command line given
  to \<open>CreateProcessW\<close> is exactly the quoted target, \<open>-profile\<close> with the quoted
  path \<open>InstallRoot/Data/profile\<close>, and \<open>-no-remote\<close>.
\<close>

theorem command_line_exact:
  assumes "module_file_name s = Some p" "p \<noteq> []" "length p < MAX_PATH"
    and "resolved_target (files s) (install_root p) = Some target"
  shows "\<exists>cwd. spawn_requests (run_calls s) =
     [(target,
       L ''\"'' @ target @ L ''\" -profile \"''
         @ install_root p @ BACKSLASH # L ''Data'' @ BACKSLASH # L ''profile''
         @ L ''\" -no-remote'',
       cwd)]"
  using wWinMain_found [OF assms]
  by (simp add: search_log_quiet launch_log_requests command_line_def profile_directory_def)

theorem command_line_exact_witness:
  "module_file_name (example_os (Some example_path) [(candidate32 example_root, RegularFile)]
       Map.empty (Inr (4, 8))) = Some example_path
   \<and> example_path \<noteq> [] \<and> length example_path < MAX_PATH
   \<and> resolved_target (files (example_os (Some example_path)
         [(candidate32 example_root, RegularFile)] Map.empty (Inr (4, 8))))
       (install_root example_path) = Some (candidate32 example_root)
   \<and> (\<exists>cwd. spawn_requests (run_calls (example_os (Some example_path)
         [(candidate32 example_root, RegularFile)] Map.empty (Inr (4, 8)))) =
       [(candidate32 example_root,
         L ''\"C:'' @ BACKSLASH # L ''MyFox'' @ BACKSLASH # L ''App'' @ BACKSLASH # L ''Firefox''
           @ BACKSLASH # L ''firefox.exe\" -profile \"C:'' @ BACKSLASH # L ''MyFox''
           @ BACKSLASH # L ''Data'' @ BACKSLASH # L ''profile\" -no-remote'',
         cwd)])"
proof -
  let ?s = "example_os (Some example_path) [(candidate32 example_root, RegularFile)]
       Map.empty (Inr (4, 8))"
  have h1: "module_file_name ?s = Some example_path" by (simp add: example_os_def)
  have h2: "example_path \<noteq> []" by (simp add: example_path_def)
  have h3: "length example_path < MAX_PATH" by (simp add: example_path_def MAX_PATH_def)
  have h4: "resolved_target (files ?s) (install_root example_path)
              = Some (candidate32 example_root)"
    using candidates_differ [of example_root]
    by (auto simp: example_os_def example_install_root resolved_target_def)
  from command_line_exact [OF h1 h2 h3 h4] h1 h2 h3 h4 show ?thesis
    by (simp add: example_install_root candidate32_def example_root_def L_def)
qed

text \<open>
  C4. The working directory given to \<open>CreateProcessW\<close> is the directory of the
  resolved target (the target is that directory followed by \<open>firefox.exe\<close>),
  which is \<open>InstallRoot/App/Firefox64\<close> or \<open>InstallRoot/App/Firefox\<close> and never
  \<open>InstallRoot\<close>.
\<close>

theorem working_directory_of_target:
  assumes "module_file_name s = Some p" "p \<noteq> []" "length p < MAX_PATH"
    and "resolved_target (files s) (install_root p) = Some target"
  shows "\<exists>cmdline cwd. spawn_requests (run_calls s) = [(target, cmdline, cwd)]
    \<and> cwd @ BACKSLASH # L ''firefox.exe'' = target
    \<and> cwd \<noteq> install_root p
    \<and> (cwd = install_root p @ BACKSLASH # L ''App'' @ BACKSLASH # L ''Firefox64''
       \<or> cwd = install_root p @ BACKSLASH # L ''App'' @ BACKSLASH # L ''Firefox'')"
proof -
  let ?root = "install_root p"
  from resolved_target_cases [OF assms(4)]
  consider (first) "target = candidate64 ?root" | (second) "target = candidate32 ?root"
    by blast
  then show ?thesis
  proof cases
    case first
    let ?cwd = "?root @ BACKSLASH # L ''App'' @ BACKSLASH # L ''Firefox64''"
    have "spawn_requests (run_calls s)
            = [(target, command_line target (profile_directory ?root), ?cwd)]"
      using wWinMain_found [OF assms] first
      by (simp add: search_log_quiet launch_log_requests directory_of_candidate)
    moreover have "?cwd @ BACKSLASH # L ''firefox.exe'' = target"
      using first by (simp add: candidate64_def)
    moreover have "?cwd \<noteq> ?root" by simp
    ultimately show ?thesis by blast
  next
    case second
    let ?cwd = "?root @ BACKSLASH # L ''App'' @ BACKSLASH # L ''Firefox''"
    have "spawn_requests (run_calls s)
            = [(target, command_line target (profile_directory ?root), ?cwd)]"
      using wWinMain_found [OF assms] second
      by (simp add: search_log_quiet launch_log_requests directory_of_candidate)
    moreover have "?cwd @ BACKSLASH # L ''firefox.exe'' = target"
      using second by (simp add: candidate32_def)
    moreover have "?cwd \<noteq> ?root" by simp
    ultimately show ?thesis by blast
  qed
qed

theorem working_directory_of_target_witness:
  "module_file_name (example_os (Some example_path) [(candidate64 example_root, RegularFile)]
       Map.empty (Inl 5)) = Some example_path
   \<and> example_path \<noteq> [] \<and> length example_path < MAX_PATH
   \<and> resolved_target (files (example_os (Some example_path)
         [(candidate64 example_root, RegularFile)] Map.empty (Inl 5)))
       (install_root example_path) = Some (candidate64 example_root)
   \<and> (\<exists>cmdline cwd. spawn_requests (run_calls (example_os (Some example_path)
         [(candidate64 example_root, RegularFile)] Map.empty (Inl 5)))
           = [(candidate64 example_root, cmdline, cwd)]
       \<and> cwd @ BACKSLASH # L ''firefox.exe'' = candidate64 example_root
       \<and> cwd \<noteq> example_root)"
proof -
  let ?s = "example_os (Some example_path) [(candidate64 example_root, RegularFile)]
       Map.empty (Inl 5)"
  have h1: "module_file_name ?s = Some example_path" by (simp add: example_os_def)
  have h2: "example_path \<noteq> []" by (simp add: example_path_def)
  have h3: "length example_path < MAX_PATH" by (simp add: example_path_def MAX_PATH_def)
  have h4: "resolved_target (files ?s) (install_root example_path)
              = Some (candidate64 example_root)"
    by (simp add: example_os_def example_install_root resolved_target_def)
  from working_directory_of_target [OF h1 h2 h3 h4]
  obtain cmdline cwd where "spawn_requests (run_calls ?s) = [(candidate64 example_root, cmdline, cwd)]"
    "cwd @ BACKSLASH # L ''firefox.exe'' = candidate64 example_root"
    "cwd \<noteq> install_root example_path"
    by blast
  with h1 h2 h3 h4 show ?thesis
    by (simp add: example_install_root)
qed

text \<open>
  C5. When the query for the path of the running executable fails, or the path
  does not fit in \<open>MAX_PATH\<close> characters, the launcher shows its error dialog
  and exits with status 1; the query and the dialog are its only calls.
\<close>

theorem path_query_failure_stops:
  assumes "module_file_name s = None \<or>
           (\<exists>p. module_file_name s = Some p \<and> MAX_PATH \<le> length p)"
  shows "fst (wWinMain s) = 1
    \<and> (\<exists>len. run_calls s =
         [GetModuleFileNameW_call MAX_PATH len,
          MessageBoxW_call (L ''Failed to get executable path.'') (L ''MyFox - Error'')
            MB_ICONERROR])
    \<and> files (snd (wWinMain s)) = files s"
proof -
  from assms have "module_file_name s = None \<or>
           (\<exists>p. module_file_name s = Some p \<and> (p = [] \<or> MAX_PATH \<le> length p))"
    by auto
  from wWinMain_no_path [OF this] show ?thesis by simp
qed

theorem path_query_failure_stops_witness:
  "(module_file_name (example_os None [(candidate64 example_root, RegularFile)]
       Map.empty (Inr (4, 8))) = None
     \<or> (\<exists>p. module_file_name (example_os None [(candidate64 example_root, RegularFile)]
       Map.empty (Inr (4, 8))) = Some p \<and> MAX_PATH \<le> length p))
   \<and> fst (wWinMain (example_os None [(candidate64 example_root, RegularFile)]
       Map.empty (Inr (4, 8)))) = 1
   \<and> run_calls (example_os None [(candidate64 example_root, RegularFile)]
       Map.empty (Inr (4, 8))) =
         [GetModuleFileNameW_call MAX_PATH 0,
          MessageBoxW_call (L ''Failed to get executable path.'') (L ''MyFox - Error'')
            MB_ICONERROR]"
proof -
  let ?s = "example_os None [(candidate64 example_root, RegularFile)] Map.empty (Inr (4, 8))"
  have h: "module_file_name ?s = None \<or>
           (\<exists>p. module_file_name ?s = Some p \<and> MAX_PATH \<le> length p)"
    by (simp add: example_os_def)
  have calls: "run_calls ?s =
         [GetModuleFileNameW_call MAX_PATH 0,
          MessageBoxW_call (L ''Failed to get executable path.'') (L ''MyFox - Error'')
            MB_ICONERROR]"
    by (simp add: run_calls_def wWinMain_def GetModuleFileNameW_def MessageBoxW_def
        example_os_def logged_def)
  from path_query_failure_stops [OF h] h calls show ?thesis by simp
qed

lemma mkdir_paths_differ: "profile_directory root \<noteq> data_directory root"
proof
  assume "profile_directory root = data_directory root"
  then have "length (profile_directory root) = length (data_directory root)" by simp
  then show False by (simp add: path_lengths)
qed

lemma launch_status_eq: "launch_status outcome = (if isl outcome then 1 else 0)"
  by (simp add: launch_status_def split: sum.splits)

text \<open>
  C6. The launcher asks for \<open>InstallRoot/Data\<close> first and for
  \<open>InstallRoot/Data/profile\<close> second. A creation call answers \<open>FALSE\<close> when the
  directory exists and when the system refuses; whatever the two calls
  answer, the launcher goes on to \<open>CreateProcessW\<close> with the same arguments, and
  its exit status depends on that call alone.
\<close>

theorem directory_creation_unchecked:
  assumes "module_file_name s = Some p" "p \<noteq> []" "length p < MAX_PATH"
    and "resolved_target (files s) (install_root p) = Some target"
  shows "\<exists>made_data made_profile spawned cwd.
      filter is_effect (run_calls s) =
        [CreateDirectoryW_call (data_directory (install_root p)) made_data,
         CreateDirectoryW_call (profile_directory (install_root p)) made_profile,
         CreateProcessW_call target (command_line target (profile_directory (install_root p)))
           DETACHED_PROCESS cwd spawned]
    \<and> (made_data \<longleftrightarrow> files s (data_directory (install_root p)) = None
                      \<and> mkdir_fault s (files s) (data_directory (install_root p)) = None)
    \<and> (made_profile \<longleftrightarrow> files s (profile_directory (install_root p)) = None
          \<and> mkdir_fault s
               (if made_data then (files s)(data_directory (install_root p) \<mapsto> Directory)
                else files s)
               (profile_directory (install_root p)) = None)
    \<and> fst (wWinMain s) = (if spawned then 0 else 1)"
proof -
  let ?root = "install_root p"
  let ?outcome = "spawn_outcome s ?root target"
  let ?made_data = "created (mkdir_fault s) (files s) (data_directory ?root)"
  let ?made_profile = "created (mkdir_fault s)
      (with_dir (mkdir_fault s) (files s) (data_directory ?root)) (profile_directory ?root)"
  have "filter is_effect (run_calls s) =
        [CreateDirectoryW_call (data_directory ?root) ?made_data,
         CreateDirectoryW_call (profile_directory ?root) ?made_profile,
         CreateProcessW_call target (command_line target (profile_directory ?root))
           DETACHED_PROCESS (snd (remove_filespec target)) (\<not> isl ?outcome)]"
    using wWinMain_found [OF assms] by (simp add: search_log_quiet launch_log_effects)
  moreover have "?made_data \<longleftrightarrow> files s (data_directory ?root) = None
                      \<and> mkdir_fault s (files s) (data_directory ?root) = None"
    by (simp add: created_def)
  moreover have "?made_profile \<longleftrightarrow> files s (profile_directory ?root) = None
          \<and> mkdir_fault s
               (if ?made_data then (files s)(data_directory ?root \<mapsto> Directory) else files s)
               (profile_directory ?root) = None"
    using mkdir_paths_differ [of ?root] by (simp add: created_def with_dir_def)
  moreover have "fst (wWinMain s) = (if \<not> isl ?outcome then 0 else 1)"
    using wWinMain_found [OF assms] by (simp add: launch_status_eq)
  ultimately show ?thesis by blast
qed

theorem directory_creation_unchecked_witness:
  "module_file_name (example_os (Some example_path)
       [(candidate64 example_root, RegularFile), (data_directory example_root, Directory)]
       (\<lambda>p. Some 5) (Inr (4, 8))) = Some example_path
   \<and> example_path \<noteq> [] \<and> length example_path < MAX_PATH
   \<and> resolved_target (files (example_os (Some example_path)
         [(candidate64 example_root, RegularFile), (data_directory example_root, Directory)]
         (\<lambda>p. Some 5) (Inr (4, 8))))
       (install_root example_path) = Some (candidate64 example_root)
   \<and> (\<exists>cwd. filter is_effect (run_calls (example_os (Some example_path)
         [(candidate64 example_root, RegularFile), (data_directory example_root, Directory)]
         (\<lambda>p. Some 5) (Inr (4, 8)))) =
        [CreateDirectoryW_call (data_directory example_root) False,
         CreateDirectoryW_call (profile_directory example_root) False,
         CreateProcessW_call (candidate64 example_root)
           (command_line (candidate64 example_root) (profile_directory example_root))
           DETACHED_PROCESS cwd True])
   \<and> fst (wWinMain (example_os (Some example_path)
         [(candidate64 example_root, RegularFile), (data_directory example_root, Directory)]
         (\<lambda>p. Some 5) (Inr (4, 8)))) = 0"
proof -
  let ?s = "example_os (Some example_path)
       [(candidate64 example_root, RegularFile), (data_directory example_root, Directory)]
       (\<lambda>p. Some 5) (Inr (4, 8))"
  have h1: "module_file_name ?s = Some example_path" by (simp add: example_os_def)
  have h2: "example_path \<noteq> []" by (simp add: example_path_def)
  have h3: "length example_path < MAX_PATH" by (simp add: example_path_def MAX_PATH_def)
  have h4: "resolved_target (files ?s) (install_root example_path)
              = Some (candidate64 example_root)"
    by (simp add: example_os_def example_install_root resolved_target_def)
  have data: "files ?s (data_directory example_root) \<noteq> None"
    by (simp add: example_os_def)
  have fault: "\<And>fs. mkdir_fault ?s fs (profile_directory example_root) \<noteq> None"
    by (simp add: example_os_def)
  have zero: "fst (wWinMain ?s) = 0" by code_simp
  from directory_creation_unchecked [OF h1 h2 h3 h4]
  obtain made_data made_profile spawned cwd where run:
    "filter is_effect (run_calls ?s) =
        [CreateDirectoryW_call (data_directory example_root) made_data,
         CreateDirectoryW_call (profile_directory example_root) made_profile,
         CreateProcessW_call (candidate64 example_root)
           (command_line (candidate64 example_root) (profile_directory example_root))
           DETACHED_PROCESS cwd spawned]"
    and made_data: "made_data \<longleftrightarrow> files ?s (data_directory example_root) = None
          \<and> mkdir_fault ?s (files ?s) (data_directory example_root) = None"
    and made_profile: "made_profile \<longleftrightarrow> files ?s (profile_directory example_root) = None
          \<and> mkdir_fault ?s
               (if made_data then (files ?s)(data_directory example_root \<mapsto> Directory)
                else files ?s)
               (profile_directory example_root) = None"
    and status: "fst (wWinMain ?s) = (if spawned then 0 else 1)"
    unfolding example_install_root by blast
  from made_data data have "\<not> made_data" by simp
  moreover from made_profile fault have "\<not> made_profile" by blast
  moreover from status zero have spawned by (simp split: if_splits)
  ultimately have "filter is_effect (run_calls ?s) =
        [CreateDirectoryW_call (data_directory example_root) False,
         CreateDirectoryW_call (profile_directory example_root) False,
         CreateProcessW_call (candidate64 example_root)
           (command_line (candidate64 example_root) (profile_directory example_root))
           DETACHED_PROCESS cwd True]"
    using run by simp
  with h1 h2 h3 h4 zero show ?thesis by blast
qed

text \<open>
  C7. The exit status is 0 when a \<open>CreateProcessW\<close> call of the run succeeded,
  and 1 in every other case.
\<close>

theorem exit_code_zero_iff_spawned:
  "fst (wWinMain s) = (if \<exists>c \<in> set (run_calls s). spawn_succeeded c then 0 else 1)"
proof (cases "module_file_name s = None \<or>
           (\<exists>p. module_file_name s = Some p \<and> (p = [] \<or> MAX_PATH \<le> length p))")
  case True
  from wWinMain_no_path [OF True] show ?thesis by auto
next
  case False
  then obtain p where p: "module_file_name s = Some p" "p \<noteq> []" "length p < MAX_PATH"
    by (cases "module_file_name s") auto
  show ?thesis
  proof (cases "resolved_target (files s) (install_root p)")
    case None
    from wWinMain_missing [OF p None] search_log_no_spawn [of "files s" p] show ?thesis
      by simp
  next
    case (Some target)
    from wWinMain_found [OF p Some] search_log_no_spawn [of "files s" p] show ?thesis
      by (simp add: launch_log_spawn launch_status_eq bex_Un)
  qed
qed

theorem exit_code_zero_iff_spawned_witness:
  "fst (wWinMain (example_os (Some example_path) [(candidate64 example_root, RegularFile)]
       Map.empty (Inl 5))) = 1
   \<and> \<not> (\<exists>c \<in> set (run_calls (example_os (Some example_path)
       [(candidate64 example_root, RegularFile)] Map.empty (Inl 5))). spawn_succeeded c)"
proof -
  let ?s = "example_os (Some example_path) [(candidate64 example_root, RegularFile)]
       Map.empty (Inl 5)"
  have "fst (wWinMain ?s) = 1" by code_simp
  with exit_code_zero_iff_spawned [of ?s] show ?thesis by (simp split: if_splits)
qed

lemma dirs_made_existing:
  assumes "fs (data_directory root) \<noteq> None" "fs (profile_directory root) \<noteq> None"
  shows "dirs_made fault fs root = fs"
    and "\<not> created fault fs (data_directory root)"
    and "\<not> created fault (with_dir fault fs (data_directory root)) (profile_directory root)"
  using assms by (auto simp: dirs_made_def with_dir_def created_def)

lemma spawn_outcome_cong:
  "spawn s' = spawn s \<Longrightarrow> mkdir_fault s' = mkdir_fault s \<Longrightarrow> files s' = files s \<Longrightarrow>
   spawn_outcome s' root target = spawn_outcome s root target"
  by (simp add: spawn_outcome_def)

text \<open>
  C8. On an install layout in which \<open>Data\<close> and \<open>Data/profile\<close> already exist,
  a second run makes the calls of the first run, with the same command line,
  and ends with the same status; the file system is left as it was. Both
  creation calls answer \<open>FALSE\<close>, and the status still depends on
  \<open>CreateProcessW\<close> alone.
\<close>

theorem second_run_repeats_first:
  assumes "module_file_name s = Some p" "p \<noteq> []" "length p < MAX_PATH"
    and "resolved_target (files s) (install_root p) = Some target"
    and "files s (data_directory (install_root p)) \<noteq> None"
    and "files s (profile_directory (install_root p)) \<noteq> None"
  shows "run_calls (snd (wWinMain s)) = run_calls s
    \<and> fst (wWinMain (snd (wWinMain s))) = fst (wWinMain s)
    \<and> files (snd (wWinMain s)) = files s
    \<and> (\<exists>cwd spawned.
          filter is_effect (run_calls s) =
            [CreateDirectoryW_call (data_directory (install_root p)) False,
             CreateDirectoryW_call (profile_directory (install_root p)) False,
             CreateProcessW_call target
               (command_line target (profile_directory (install_root p)))
               DETACHED_PROCESS cwd spawned]
          \<and> fst (wWinMain s) = (if spawned then 0 else 1))"
proof -
  let ?root = "install_root p"
  let ?s' = "snd (wWinMain s)"
  let ?outcome = "spawn_outcome s ?root target"
  note first = wWinMain_found [OF assms(1-4)]
  note existing = dirs_made_existing [OF assms(5,6)]
  from first have status1: "fst (wWinMain s) = launch_status ?outcome"
    and calls1: "run_calls s = search_log (files s) p @
         launch_log (mkdir_fault s) (files s) ?root target ?outcome"
    and files1: "files ?s' = dirs_made (mkdir_fault s) (files s) ?root"
    and env: "module_file_name ?s' = module_file_name s" "mkdir_fault ?s' = mkdir_fault s"
      "spawn ?s' = spawn s"
    by blast+
  from files1 have files: "files ?s' = files s"
    by (simp only: existing)
  from env(1) assms(1) have path: "module_file_name ?s' = Some p" by simp
  from assms(4) files have target: "resolved_target (files ?s') ?root = Some target"
    by simp
  note second = wWinMain_found [OF path assms(2,3) target]
  have outcome: "spawn_outcome ?s' ?root target = ?outcome"
    by (rule spawn_outcome_cong [OF env(3) env(2) files])
  from second have status2: "fst (wWinMain ?s') = launch_status (spawn_outcome ?s' ?root target)"
    and calls2: "run_calls ?s' = search_log (files ?s') p @
         launch_log (mkdir_fault ?s') (files ?s') ?root target (spawn_outcome ?s' ?root target)"
    by blast+
  have same_calls: "run_calls ?s' = run_calls s"
    by (simp only: calls1 calls2 outcome env files)
  have same_status: "fst (wWinMain ?s') = fst (wWinMain s)"
    by (simp only: status1 status2 outcome)
  have effects: "filter is_effect (run_calls s) =
            [CreateDirectoryW_call (data_directory ?root) False,
             CreateDirectoryW_call (profile_directory ?root) False,
             CreateProcessW_call target (command_line target (profile_directory ?root))
               DETACHED_PROCESS (snd (remove_filespec target)) (\<not> isl ?outcome)]"
    by (simp add: calls1 search_log_quiet launch_log_effects existing)
  have status: "fst (wWinMain s) = (if \<not> isl ?outcome then 0 else 1)"
    by (simp add: status1 launch_status_eq)
  from effects status have "\<exists>cwd spawned.
          filter is_effect (run_calls s) =
            [CreateDirectoryW_call (data_directory ?root) False,
             CreateDirectoryW_call (profile_directory ?root) False,
             CreateProcessW_call target (command_line target (profile_directory ?root))
               DETACHED_PROCESS cwd spawned]
          \<and> fst (wWinMain s) = (if spawned then 0 else 1)"
    by (intro exI conjI)
  with same_calls same_status files show ?thesis by (intro conjI)
qed

theorem second_run_repeats_first_witness:
  "module_file_name (example_os (Some example_path)
       [(candidate64 example_root, RegularFile), (data_directory example_root, Directory),
        (profile_directory example_root, Directory)] Map.empty (Inr (4, 8))) = Some example_path
   \<and> example_path \<noteq> [] \<and> length example_path < MAX_PATH
   \<and> resolved_target (files (example_os (Some example_path)
       [(candidate64 example_root, RegularFile), (data_directory example_root, Directory),
        (profile_directory example_root, Directory)] Map.empty (Inr (4, 8))))
       (install_root example_path) = Some (candidate64 example_root)
   \<and> files (example_os (Some example_path)
       [(candidate64 example_root, RegularFile), (data_directory example_root, Directory),
        (profile_directory example_root, Directory)] Map.empty (Inr (4, 8)))
       (data_directory (install_root example_path)) \<noteq> None
   \<and> files (example_os (Some example_path)
       [(candidate64 example_root, RegularFile), (data_directory example_root, Directory),
        (profile_directory example_root, Directory)] Map.empty (Inr (4, 8)))
       (profile_directory (install_root example_path)) \<noteq> None
   \<and> run_calls (snd (wWinMain (example_os (Some example_path)
       [(candidate64 example_root, RegularFile), (data_directory example_root, Directory),
        (profile_directory example_root, Directory)] Map.empty (Inr (4, 8)))))
      = run_calls (example_os (Some example_path)
       [(candidate64 example_root, RegularFile), (data_directory example_root, Directory),
        (profile_directory example_root, Directory)] Map.empty (Inr (4, 8)))
   \<and> fst (wWinMain (snd (wWinMain (example_os (Some example_path)
       [(candidate64 example_root, RegularFile), (data_directory example_root, Directory),
        (profile_directory example_root, Directory)] Map.empty (Inr (4, 8)))))) = 0"
proof -
  let ?s = "example_os (Some example_path)
       [(candidate64 example_root, RegularFile), (data_directory example_root, Directory),
        (profile_directory example_root, Directory)] Map.empty (Inr (4, 8))"
  have h1: "module_file_name ?s = Some example_path" by (simp add: example_os_def)
  have h2: "example_path \<noteq> []" by (simp add: example_path_def)
  have h3: "length example_path < MAX_PATH" by (simp add: example_path_def MAX_PATH_def)
  have h4: "resolved_target (files ?s) (install_root example_path)
              = Some (candidate64 example_root)"
    by (simp add: example_os_def example_install_root resolved_target_def)
  have h5: "files ?s (data_directory (install_root example_path)) \<noteq> None"
    by (simp add: example_os_def example_install_root)
  have h6: "files ?s (profile_directory (install_root example_path)) \<noteq> None"
    by (simp add: example_os_def example_install_root)
  have zero: "fst (wWinMain ?s) = 0" by code_simp
  from second_run_repeats_first [OF h1 h2 h3 h4 h5 h6] zero
  have "run_calls (snd (wWinMain ?s)) = run_calls ?s"
    and "fst (wWinMain (snd (wWinMain ?s))) = 0"
    by simp_all
  with h1 h2 h3 h4 h5 h6 show ?thesis by blast
qed

text \<open>
  C9. An entry that is a directory counts as found: when a directory named
  \<open>firefox.exe\<close> is at \<open>App/Firefox64/firefox.exe\<close>, the attribute query
  answers the directory bit, the launcher takes that path as the target and
  does not check the second candidate.
\<close>

theorem directory_counts_as_found:
  assumes "module_file_name s = Some p" "p \<noteq> []" "length p < MAX_PATH"
    and "files s (candidate64 (install_root p)) = Some Directory"
  shows "GetFileAttributesW_call (candidate64 (install_root p)) FILE_ATTRIBUTE_DIRECTORY
           \<in> set (run_calls s)
    \<and> map fst (spawn_requests (run_calls s)) = [candidate64 (install_root p)]
    \<and> (\<forall>attr. GetFileAttributesW_call (candidate32 (install_root p)) attr \<notin> set (run_calls s))"
proof -
  from assms(4)
  have "resolved_target (files s) (install_root p) = Some (candidate64 (install_root p))"
    by (simp add: resolved_target_def)
  from wWinMain_found [OF assms(1-3) this] assms(4) show ?thesis
    by (simp add: search_log_quiet launch_log_requests search_log_no_second_check
        launch_log_no_check search_log_def search64_log_def attributes_def candidates_differ)
qed

theorem directory_counts_as_found_witness:
  "module_file_name (example_os (Some example_path)
       [(candidate64 example_root, Directory), (candidate32 example_root, RegularFile)]
       Map.empty (Inl 5)) = Some example_path
   \<and> example_path \<noteq> [] \<and> length example_path < MAX_PATH
   \<and> files (example_os (Some example_path)
       [(candidate64 example_root, Directory), (candidate32 example_root, RegularFile)]
       Map.empty (Inl 5)) (candidate64 (install_root example_path)) = Some Directory
   \<and> map fst (spawn_requests (run_calls (example_os (Some example_path)
       [(candidate64 example_root, Directory), (candidate32 example_root, RegularFile)]
       Map.empty (Inl 5)))) = [candidate64 example_root]"
proof -
  let ?s = "example_os (Some example_path)
       [(candidate64 example_root, Directory), (candidate32 example_root, RegularFile)]
       Map.empty (Inl 5)"
  have h1: "module_file_name ?s = Some example_path" by (simp add: example_os_def)
  have h2: "example_path \<noteq> []" by (simp add: example_path_def)
  have h3: "length example_path < MAX_PATH" by (simp add: example_path_def MAX_PATH_def)
  have h4: "files ?s (candidate64 (install_root example_path)) = Some Directory"
    by (simp add: example_os_def example_install_root)
  from directory_counts_as_found [OF h1 h2 h3 h4] h1 h2 h3 h4 show ?thesis
    by (simp add: example_install_root)
qed

text \<open>
  C10. For every path of the running executable shorter than \<open>MAX_PATH\<close>, every
  string-safe call of the run is given a text that fits its buffer and
  returns \<open>S_OK\<close>: the target path, the data and profile directories, the
  command line and the copy that becomes the working directory. The strings
  given to \<open>CreateProcessW\<close> are shorter than their buffers.
\<close>

theorem buffers_never_truncate:
  assumes "module_file_name s = Some p" "length p < MAX_PATH"
  shows "(\<forall>c \<in> set (run_calls s). fits_buffer c)
    \<and> (\<forall>(target, cmdline, cwd) \<in> set (spawn_requests (run_calls s)).
          length target < MAX_PATH + 64 \<and> length cmdline < MAX_PATH * 3
          \<and> length cwd < MAX_PATH + 64)"
proof (cases "p = []")
  case True
  with assms(1) have "module_file_name s = None \<or>
           (\<exists>p. module_file_name s = Some p \<and> (p = [] \<or> MAX_PATH \<le> length p))"
    by simp
  from wWinMain_no_path [OF this] show ?thesis by auto
next
  case False
  let ?root = "install_root p"
  from assms(2) have root: "length ?root < MAX_PATH"
    using length_install_root [of p] by simp
  show ?thesis
  proof (cases "resolved_target (files s) ?root")
    case None
    from wWinMain_missing [OF assms(1) False assms(2) None]
    have "run_calls s = search_log (files s) p @
         [MessageBoxW_call not_found_text (L ''MyFox - Error'') MB_ICONERROR]"
      by blast
    with search_log_fits [OF assms(2), of "files s"] show ?thesis
      by (simp add: search_log_quiet)
  next
    case (Some target)
    from resolved_target_cases [OF Some] have target: "length target \<le> length ?root + 26"
      by (auto simp: path_lengths)
    from wWinMain_found [OF assms(1) False assms(2) Some]
    have calls: "run_calls s = search_log (files s) p @
         launch_log (mkdir_fault s) (files s) ?root target (spawn_outcome s ?root target)"
      by blast
    have "length (snd (remove_filespec target)) \<le> length target"
      by (rule length_remove_filespec)
    with root target have lengths: "length target < MAX_PATH + 64"
      "length (command_line target (profile_directory ?root)) < MAX_PATH * 3"
      "length (snd (remove_filespec target)) < MAX_PATH + 64"
      by (simp_all add: path_lengths MAX_PATH_def)
    from search_log_fits [OF assms(2), of "files s"]
      launch_log_fits [OF root target, of "mkdir_fault s" "files s" "spawn_outcome s ?root target"]
    have "\<forall>c \<in> set (run_calls s). fits_buffer c"
      by (simp add: calls ball_Un)
    moreover have "spawn_requests (run_calls s) =
        [(target, command_line target (profile_directory ?root), snd (remove_filespec target))]"
      by (simp add: calls search_log_quiet launch_log_requests)
    ultimately show ?thesis using lengths by simp
  qed
qed

theorem buffers_never_truncate_witness:
  "module_file_name (example_os (Some example_path)
       [(candidate32 example_root, RegularFile), (data_directory example_root, RegularFile)]
       Map.empty (Inl 2)) = Some example_path
   \<and> length example_path < MAX_PATH
   \<and> list_all fits_buffer (run_calls (example_os (Some example_path)
       [(candidate32 example_root, RegularFile), (data_directory example_root, RegularFile)]
       Map.empty (Inl 2)))
   \<and> length (run_calls (example_os (Some example_path)
       [(candidate32 example_root, RegularFile), (data_directory example_root, RegularFile)]
       Map.empty (Inl 2))) = 17"
proof -
  let ?s = "example_os (Some example_path)
       [(candidate32 example_root, RegularFile), (data_directory example_root, RegularFile)]
       Map.empty (Inl 2)"
  have h1: "module_file_name ?s = Some example_path" by (simp add: example_os_def)
  have h2: "length example_path < MAX_PATH" by (simp add: example_path_def MAX_PATH_def)
  have n: "length (run_calls ?s) = 17" by code_simp
  from buffers_never_truncate [OF h1 h2] have "list_all fits_buffer (run_calls ?s)"
    by (simp add: list_all_iff)
  with h1 h2 n show ?thesis by blast
qed

end
